theory Spec2Isabelle
  imports Main "HOL-Library.Word"
begin

section \<open>Host imports of the contract virtual machine (src/vm/imports.ts)\<close>

text \<open>
  The host functions of \<^verbatim>\<open>src/vm/imports.ts\<close> are glue between the guest's linear
  memory, the backend of the instance and two signature libraries. The embedding keeps
  that shape: every function the file imports from elsewhere (\<^verbatim>\<open>readRegion\<close>,
  \<^verbatim>\<open>writeRegion\<close>, \<^verbatim>\<open>decodeSections\<close>, the guest's \<^verbatim>\<open>allocate\<close> export, the backend's
  address codec, the conversions of Node's \<^verbatim>\<open>Buffer\<close>, \<^verbatim>\<open>secp.verify\<close>,
  \<^verbatim>\<open>ed.verify\<close>, ...) is a field of an environment record, and the host functions
  are written over that record, statement by statement.

  A JavaScript exception is a value \<open>Inl fault\<close>; it leaves the state as it was when
  it was thrown. The state holds the guest (its memory and allocator) and the list of
  calls made to imported functions so far, in call order, so that "no read", "no write"
  and "no verification" are statements about that list.
\<close>

subsection \<open>Data\<close>

type_synonym byte = "8 word"

text \<open>A \<^verbatim>\<open>Buffer\<close>: a sequence of bytes.\<close>
type_synonym buffer = "byte list"

text \<open>A JavaScript string: its UTF-16 code units.\<close>
type_synonym jsstring = "nat list"

text \<open>
  The exceptions that can leave a host function: the ones \<^verbatim>\<open>imports.ts\<close> throws itself
  (\<^verbatim>\<open>VmError.runtimeErr\<close>, \<^verbatim>\<open>VmError.aborted\<close>, \<^verbatim>\<open>CommunicationError.zeroAddress\<close>),
  the region and sections errors of the memory helpers, the errors of the JavaScript
  runtime (\<^verbatim>\<open>SyntaxError\<close> of \<^verbatim>\<open>BigInt\<close>, \<^verbatim>\<open>TypeError\<close> on \<^verbatim>\<open>undefined\<close>), and an
  exception thrown by the backend or by a signature library, with its message.
\<close>
datatype fault =
    RuntimeErr string
  | Aborted string
  | ZeroAddress
  | RegionError
  | SectionsError
  | SyntaxError
  | TypeError
  | BackendError string
  | LibraryError string

text \<open>One call of an imported function, with its arguments.\<close>
datatype call =
    ReadRegion int nat
  | WriteRegion int buffer
  | Allocate nat
  | DecodeSections buffer
  | CanonicalAddress jsstring
  | SecpVerify buffer buffer buffer
  | SecpRecover int int int buffer
  | EdVerify buffer buffer buffer

text \<open>
  What \<^verbatim>\<open>imports.ts\<close> imports. \<open>'g\<close> is the guest: the linear memory together with
  whatever its allocator keeps. Pointers are JavaScript numbers (\<open>int\<close>).
  \<^item> \<open>readRegion g ptr maxLength\<close>, \<open>writeRegion g ptr data\<close>: \<^verbatim>\<open>./memory.js\<close>;
  \<^item> \<open>allocate g n\<close>: the guest's export, which may change the guest;
  \<^item> \<open>decodeSections\<close>: \<^verbatim>\<open>./sections.js\<close>;
  \<^item> \<open>canonicalAddress\<close>: \<^verbatim>\<open>instance.backend.api\<close>;
  \<^item> \<open>toString_utf8\<close>, \<open>from_base64url\<close>, \<open>toString_base64url\<close>: Node's \<^verbatim>\<open>Buffer\<close>;
  \<^item> \<open>secp_verify signature hash pubkey\<close>: \<^verbatim>\<open>secp.verify\<close>;
  \<^item> \<open>secp_recoverPublicKey r s recoverParam hash\<close>: the bytes
    \<^verbatim>\<open>Buffer.from(new secp.Signature(r, s, recoverParam).recoverPublicKey(hash).toHex(false), "hex")\<close>;
  \<^item> \<open>ed_verify signature message pubkey\<close>: \<^verbatim>\<open>ed.verify\<close>.
\<close>
record 'g env =
  readRegion :: "'g \<Rightarrow> int \<Rightarrow> nat \<Rightarrow> fault + buffer"
  writeRegion :: "'g \<Rightarrow> int \<Rightarrow> buffer \<Rightarrow> fault + 'g"
  allocate :: "'g \<Rightarrow> nat \<Rightarrow> (fault + int) \<times> 'g"
  decodeSections :: "buffer \<Rightarrow> fault + buffer list"
  canonicalAddress :: "jsstring \<Rightarrow> fault + buffer"
  toString_utf8 :: "buffer \<Rightarrow> jsstring"
  from_base64url :: "jsstring \<Rightarrow> buffer"
  toString_base64url :: "buffer \<Rightarrow> jsstring"
  secp_verify :: "buffer \<Rightarrow> buffer \<Rightarrow> buffer \<Rightarrow> fault + bool"
  secp_recoverPublicKey :: "int \<Rightarrow> int \<Rightarrow> int \<Rightarrow> buffer \<Rightarrow> fault + buffer"
  ed_verify :: "buffer \<Rightarrow> buffer \<Rightarrow> buffer \<Rightarrow> fault + bool"

record 'g host =
  guest :: 'g
  calls :: "call list"

type_synonym ('a, 'g) hostM = "'g host \<Rightarrow> (fault + 'a) \<times> 'g host"

subsection \<open>Sequencing\<close>

definition returnH :: "'a \<Rightarrow> ('a, 'g) hostM" where
  "returnH a s = (Inr a, s)"

definition throwH :: "fault \<Rightarrow> ('a, 'g) hostM" where
  "throwH e s = (Inl e, s)"

text \<open>Run \<open>m\<close>; an exception ends the function, a value goes on to \<open>f\<close>.\<close>
definition thenH :: "('a, 'g) hostM \<Rightarrow> ('a \<Rightarrow> ('b, 'g) hostM) \<Rightarrow> ('b, 'g) hostM" where
  "thenH m f s = (case m s of (Inl e, s') \<Rightarrow> (Inl e, s') | (Inr a, s') \<Rightarrow> f a s')"

definition logged :: "call \<Rightarrow> 'g host \<Rightarrow> 'g host" where
  "logged c s = s\<lparr>calls := calls s @ [c]\<rparr>"

subsection \<open>Calls of imported functions\<close>

definition read_region :: "'g env \<Rightarrow> int \<Rightarrow> nat \<Rightarrow> (buffer, 'g) hostM" where
  "read_region env ptr maxLength s =
     (readRegion env (guest s) ptr maxLength, logged (ReadRegion ptr maxLength) s)"

definition write_region :: "'g env \<Rightarrow> int \<Rightarrow> buffer \<Rightarrow> (unit, 'g) hostM" where
  "write_region env ptr data s =
     (case writeRegion env (guest s) ptr data of
        Inl e \<Rightarrow> (Inl e, logged (WriteRegion ptr data) s)
      | Inr g' \<Rightarrow> (Inr (), logged (WriteRegion ptr data) (s\<lparr>guest := g'\<rparr>)))"

definition call_allocate :: "'g env \<Rightarrow> nat \<Rightarrow> (int, 'g) hostM" where
  "call_allocate env n s =
     (case allocate env (guest s) n of
        (r, g') \<Rightarrow> (r, logged (Allocate n) (s\<lparr>guest := g'\<rparr>)))"

definition decode_sections :: "'g env \<Rightarrow> buffer \<Rightarrow> (buffer list, 'g) hostM" where
  "decode_sections env buf s = (decodeSections env buf, logged (DecodeSections buf) s)"

definition canonical_address :: "'g env \<Rightarrow> jsstring \<Rightarrow> (buffer, 'g) hostM" where
  "canonical_address env human s = (canonicalAddress env human, logged (CanonicalAddress human) s)"

definition call_secp_verify :: "'g env \<Rightarrow> buffer \<Rightarrow> buffer \<Rightarrow> buffer \<Rightarrow> (bool, 'g) hostM" where
  "call_secp_verify env signature hash pubkey s =
     (secp_verify env signature hash pubkey, logged (SecpVerify signature hash pubkey) s)"

definition call_secp_recover ::
  "'g env \<Rightarrow> int \<Rightarrow> int \<Rightarrow> int \<Rightarrow> buffer \<Rightarrow> (buffer, 'g) hostM" where
  "call_secp_recover env r sv recoverParam hash s =
     (secp_recoverPublicKey env r sv recoverParam hash,
      logged (SecpRecover r sv recoverParam hash) s)"

definition call_ed_verify :: "'g env \<Rightarrow> buffer \<Rightarrow> buffer \<Rightarrow> buffer \<Rightarrow> (bool, 'g) hostM" where
  "call_ed_verify env signature message pubkey s =
     (ed_verify env signature message pubkey, logged (EdVerify signature message pubkey) s)"

subsection \<open>Constants\<close>

definition MAX_LENGTH_HUMAN_ADDRESS :: nat where "MAX_LENGTH_HUMAN_ADDRESS = 256"
definition MAX_LENGTH_ED25519_SIGNATURE :: nat where "MAX_LENGTH_ED25519_SIGNATURE = 64"
definition MAX_LENGTH_ED25519_MESSAGE :: nat where "MAX_LENGTH_ED25519_MESSAGE = 128 * 1024"
definition MAX_COUNT_ED25519_BATCH :: nat where "MAX_COUNT_ED25519_BATCH = 256"
definition EDDSA_PUBKEY_LEN :: nat where "EDDSA_PUBKEY_LEN = 32"
definition ECDSA_SIGNATURE_LEN :: nat where "ECDSA_SIGNATURE_LEN = 64"
definition ECDSA_UNCOMPRESSED_PUBKEY_LEN :: nat where "ECDSA_UNCOMPRESSED_PUBKEY_LEN = 65"
definition ECDSA_PUBKEY_MAX_LEN :: nat where "ECDSA_PUBKEY_MAX_LEN = ECDSA_UNCOMPRESSED_PUBKEY_LEN"
definition MESSAGE_HASH_MAX_LEN :: nat where "MESSAGE_HASH_MAX_LEN = 32"

definition SECP256K1_VERIFY_CODE_VALID :: int where "SECP256K1_VERIFY_CODE_VALID = 0"
definition SECP256K1_VERIFY_CODE_INVALID :: int where "SECP256K1_VERIFY_CODE_INVALID = 1"
definition ED25519_VERIFY_CODE_VALID :: int where "ED25519_VERIFY_CODE_VALID = 0"
definition ED25519_VERIFY_CODE_INVALID :: int where "ED25519_VERIFY_CODE_INVALID = 1"

subsection \<open>Helpers of the JavaScript runtime\<close>

text \<open>\<^verbatim>\<open>Buffer.from(lit, "utf8")\<close> for an ASCII literal: one byte per character.\<close>
definition utf8_literal :: "string \<Rightarrow> buffer" where
  "utf8_literal lit = map of_char lit"

text \<open>\<^verbatim>\<open>buf.subarray(start, end)\<close> for \<open>start \<le> end\<close>; both ends are clamped to the buffer.\<close>
definition subarray :: "buffer \<Rightarrow> nat \<Rightarrow> nat \<Rightarrow> buffer" where
  "subarray buf start end' = take (end' - start) (drop start buf)"

text \<open>
  \<^verbatim>\<open>BigInt(`0x${buf.toString("hex")}`)\<close>: the big-endian value of the bytes; on an empty
  buffer the argument is \<^verbatim>\<open>"0x"\<close> and \<^verbatim>\<open>BigInt\<close> throws a \<^verbatim>\<open>SyntaxError\<close>.
\<close>
definition be_int :: "buffer \<Rightarrow> int" where
  "be_int buf = foldl (\<lambda>acc b. acc * 256 + uint b) 0 buf"

definition bigint_of_hex :: "buffer \<Rightarrow> (int, 'g) hostM" where
  "bigint_of_hex buf = (if buf = [] then throwH SyntaxError else returnH (be_int buf))"

text \<open>\<^verbatim>\<open>xs[i]\<close>: \<open>None\<close> is \<^verbatim>\<open>undefined\<close>.\<close>
definition js_index :: "'a list \<Rightarrow> nat \<Rightarrow> 'a option" where
  "js_index xs i = (if i < length xs then Some (xs ! i) else None)"

subsection \<open>Writing a result into the guest\<close>

definition writeToContract :: "'g env \<Rightarrow> buffer \<Rightarrow> (int, 'g) hostM" where
  "writeToContract env input =
     thenH (call_allocate env (length input)) (\<lambda>targetPtr.
       if targetPtr = 0 then throwH ZeroAddress
       else thenH (write_region env targetPtr input) (\<lambda>_. returnH targetPtr))"

subsection \<open>Addresses\<close>

definition doAddrValidate :: "'g env \<Rightarrow> int \<Rightarrow> (int, 'g) hostM" where
  "doAddrValidate env sourcePtr =
     thenH (read_region env sourcePtr MAX_LENGTH_HUMAN_ADDRESS) (\<lambda>sourceData.
       if length sourceData = 0 then writeToContract env (utf8_literal ''Input is empty'')
       else
         let sourceString = toString_utf8 env sourceData;
             canonical = from_base64url env sourceString;
             nomalized = toString_base64url env canonical
         in if nomalized \<noteq> sourceString
            then writeToContract env (utf8_literal ''Address is not normalized'')
            else returnH 0)"

definition doAddrCanonicalize :: "'g env \<Rightarrow> int \<Rightarrow> int \<Rightarrow> (int, 'g) hostM" where
  "doAddrCanonicalize env sourcePtr destinationPtr =
     thenH (read_region env sourcePtr MAX_LENGTH_HUMAN_ADDRESS) (\<lambda>sourceData.
       if length sourceData = 0 then writeToContract env (utf8_literal ''Input is empty'')
       else
         thenH (canonical_address env (toString_utf8 env sourceData)) (\<lambda>canonical.
         thenH (write_region env destinationPtr canonical) (\<lambda>_.
         returnH 0)))"

subsection \<open>Signatures\<close>

definition doSecp256k1Verify :: "'g env \<Rightarrow> int \<Rightarrow> int \<Rightarrow> int \<Rightarrow> (int, 'g) hostM" where
  "doSecp256k1Verify env hashPtr signaturePtr pubkeyPtr =
     thenH (read_region env hashPtr MESSAGE_HASH_MAX_LEN) (\<lambda>hash.
     thenH (read_region env signaturePtr ECDSA_SIGNATURE_LEN) (\<lambda>signature.
     thenH (read_region env pubkeyPtr ECDSA_PUBKEY_MAX_LEN) (\<lambda>pubkey.
     thenH (call_secp_verify env signature hash pubkey) (\<lambda>result.
     returnH (if result then SECP256K1_VERIFY_CODE_VALID else SECP256K1_VERIFY_CODE_INVALID)))))"

definition doSecp256k1RecoverPubkey :: "'g env \<Rightarrow> int \<Rightarrow> int \<Rightarrow> int \<Rightarrow> (int, 'g) hostM" where
  "doSecp256k1RecoverPubkey env hashPtr signaturePtr recoverParam =
     thenH (read_region env hashPtr MESSAGE_HASH_MAX_LEN) (\<lambda>hash.
     thenH (read_region env signaturePtr ECDSA_SIGNATURE_LEN) (\<lambda>sig.
     thenH (bigint_of_hex (subarray sig 0 32)) (\<lambda>r.
     thenH (bigint_of_hex (subarray sig 32 64)) (\<lambda>sv.
     thenH (call_secp_recover env r sv recoverParam hash) (\<lambda>pubkey.
     writeToContract env pubkey)))))"

definition doEd25519Verify :: "'g env \<Rightarrow> int \<Rightarrow> int \<Rightarrow> int \<Rightarrow> (int, 'g) hostM" where
  "doEd25519Verify env messagePtr signaturePtr pubkeyPtr =
     thenH (read_region env messagePtr MAX_LENGTH_ED25519_MESSAGE) (\<lambda>message.
     thenH (read_region env signaturePtr MAX_LENGTH_ED25519_SIGNATURE) (\<lambda>signature.
     thenH (read_region env pubkeyPtr EDDSA_PUBKEY_LEN) (\<lambda>pubkey.
     thenH (call_ed_verify env signature message pubkey) (\<lambda>result.
     returnH (if result then ED25519_VERIFY_CODE_VALID else ED25519_VERIFY_CODE_INVALID)))))"

subsection \<open>Batch verification\<close>

text \<open>
  \<^verbatim>\<open>ed.verify(signatures[i], messages[i], publicKeys[i])\<close>. An \<^verbatim>\<open>undefined\<close> argument is
  outside the library's input type; the model raises a \<^verbatim>\<open>TypeError\<close> there. The length
  check before the loop keeps every index in range (lemma \<open>verify_from_triples\<close>).
\<close>
definition ed_verify_at ::
  "'g env \<Rightarrow> buffer list \<Rightarrow> buffer list \<Rightarrow> buffer list \<Rightarrow> nat \<Rightarrow> (bool, 'g) hostM" where
  "ed_verify_at env signatures messages publicKeys i =
     (case (js_index signatures i, js_index messages i, js_index publicKeys i) of
        (Some sg, Some m, Some k) \<Rightarrow> call_ed_verify env sg m k
      | _ \<Rightarrow> throwH TypeError)"

text \<open>The loop of lines 207 to 212, from index \<open>i\<close> on.\<close>
function verify_from ::
  "'g env \<Rightarrow> buffer list \<Rightarrow> buffer list \<Rightarrow> buffer list \<Rightarrow> nat \<Rightarrow> (int, 'g) hostM" where
  "verify_from env signatures messages publicKeys i s =
     (if i < length messages then
        (case ed_verify_at env signatures messages publicKeys i s of
           (Inl e, s') \<Rightarrow> (Inl e, s')
         | (Inr ok, s') \<Rightarrow>
             if \<not> ok then (Inr ED25519_VERIFY_CODE_INVALID, s')
             else verify_from env signatures messages publicKeys (Suc i) s')
      else (Inr ED25519_VERIFY_CODE_VALID, s))"
  by pat_completeness auto
termination
  by (relation "measure (\<lambda>(env, signatures, messages, publicKeys, i, s). length messages - i)") auto

text \<open>Lines 200 to 212: the second length check, then the loop.\<close>
definition verify_expanded ::
  "'g env \<Rightarrow> buffer list \<Rightarrow> buffer list \<Rightarrow> nat \<Rightarrow> buffer list \<Rightarrow> (int, 'g) hostM" where
  "verify_expanded env messages signatures signaturesLen publicKeys =
     (if length messages \<noteq> signaturesLen \<or> length messages \<noteq> length publicKeys
      then returnH ED25519_VERIFY_CODE_INVALID
      else verify_from env signatures messages publicKeys 0)"

text \<open>
  \<^verbatim>\<open>new Array(n).fill(x)\<close> is \<open>replicate n x\<close>; \<^verbatim>\<open>messages[0]\<close> and \<^verbatim>\<open>publicKeys[0]\<close> are
  read in branches where the array has exactly one element.
\<close>
definition doEd25519BatchVerify :: "'g env \<Rightarrow> int \<Rightarrow> int \<Rightarrow> int \<Rightarrow> (int, 'g) hostM" where
  "doEd25519BatchVerify env messagesPtr signaturesPtr publicKeysPtr =
     thenH (read_region env messagesPtr
              ((MAX_LENGTH_ED25519_MESSAGE + 4) * MAX_COUNT_ED25519_BATCH)) (\<lambda>messagesBuf.
     thenH (read_region env signaturesPtr
              ((MAX_LENGTH_ED25519_SIGNATURE + 4) * MAX_COUNT_ED25519_BATCH)) (\<lambda>signaturesBuf.
     thenH (read_region env publicKeysPtr
              ((EDDSA_PUBKEY_LEN + 4) * MAX_COUNT_ED25519_BATCH)) (\<lambda>publicKeysBuf.
     thenH (decode_sections env messagesBuf) (\<lambda>messages.
     thenH (decode_sections env signaturesBuf) (\<lambda>signatures.
     thenH (decode_sections env publicKeysBuf) (\<lambda>publicKeys.
       let messagesLen = length messages;
           signaturesLen = length signatures;
           publicKeysLen = length publicKeys
       in if messagesLen = signaturesLen \<and> signaturesLen = publicKeysLen
          then verify_expanded env messages signatures signaturesLen publicKeys
          else if messagesLen = 1 \<and> signaturesLen = publicKeysLen
          then verify_expanded env (replicate signaturesLen (messages ! 0))
                 signatures signaturesLen publicKeys
          else if publicKeysLen = 1 \<and> messagesLen = signaturesLen
          then verify_expanded env messages signatures signaturesLen
                 (replicate signaturesLen (publicKeys ! 0))
          else returnH ED25519_VERIFY_CODE_INVALID))))))"

subsection \<open>Range iteration\<close>

text \<open>\<^verbatim>\<open>doDbScan\<close> and \<^verbatim>\<open>doDbNext\<close>: a single \<^verbatim>\<open>throw VmError.runtimeErr("Unsupported function")\<close>.\<close>

definition doDbScan :: "'g env \<Rightarrow> int \<Rightarrow> int \<Rightarrow> int \<Rightarrow> (int, 'g) hostM" where
  "doDbScan env startPtr endPtr order = throwH (RuntimeErr ''Unsupported function'')"

definition doDbNext :: "'g env \<Rightarrow> int \<Rightarrow> (int, 'g) hostM" where
  "doDbNext env iteratorId = throwH (RuntimeErr ''Unsupported function'')"

subsection \<open>The batch rules in the words of the specification\<close>

text \<open>A triple in the argument order of \<^verbatim>\<open>ed.verify\<close>: signature, message, public key.\<close>
type_synonym triple = "buffer \<times> buffer \<times> buffer"

text \<open>
  The shape rules of the specification on the decoded sequences \<open>M\<close>, \<open>S\<close>, \<open>K\<close>:
  equal lengths pair index by index; a single message goes to every (signature, key)
  pair; a single key goes to every (message, signature) pair; every other combination
  of lengths has no expansion.
\<close>
definition expand_batch :: "buffer list \<Rightarrow> buffer list \<Rightarrow> buffer list \<Rightarrow> triple list option" where
  "expand_batch M S K =
     (if length M = length S \<and> length S = length K
      then Some (map (\<lambda>i. (S ! i, M ! i, K ! i)) [0..<length S])
      else if length M = 1 \<and> length S = length K
      then Some (map (\<lambda>i. (S ! i, M ! 0, K ! i)) [0..<length S])
      else if length K = 1 \<and> length M = length S
      then Some (map (\<lambda>i. (S ! i, M ! i, K ! 0)) [0..<length S])
      else None)"

text \<open>
  Verifying the triples in order with the semantics of \<^verbatim>\<open>ed25519_verify\<close>, stopping at
  the first one that fails.
\<close>
fun verify_triples :: "'g env \<Rightarrow> triple list \<Rightarrow> (int, 'g) hostM" where
  "verify_triples env [] s = (Inr ED25519_VERIFY_CODE_VALID, s)"
| "verify_triples env ((sg, m, k) # ts) s =
     (case call_ed_verify env sg m k s of
        (Inl e, s') \<Rightarrow> (Inl e, s')
      | (Inr ok, s') \<Rightarrow>
          if ok then verify_triples env ts s' else (Inr ED25519_VERIFY_CODE_INVALID, s'))"

definition passes :: "'g env \<Rightarrow> triple \<Rightarrow> bool" where
  "passes env t = (case t of (sg, m, k) \<Rightarrow> ed_verify env sg m k = Inr True)"

definition fails :: "'g env \<Rightarrow> triple \<Rightarrow> bool" where
  "fails env t = (case t of (sg, m, k) \<Rightarrow> ed_verify env sg m k = Inr False)"

definition ed_call :: "triple \<Rightarrow> call" where
  "ed_call t = (case t of (sg, m, k) \<Rightarrow> EdVerify sg m k)"

text \<open>The state after the three reads and the three decodings of a batch.\<close>
definition batch_decoded ::
  "int \<Rightarrow> int \<Rightarrow> int \<Rightarrow> buffer \<Rightarrow> buffer \<Rightarrow> buffer \<Rightarrow> 'g host \<Rightarrow> 'g host" where
  "batch_decoded messagesPtr signaturesPtr publicKeysPtr messagesBuf signaturesBuf publicKeysBuf s =
     s\<lparr>calls := calls s @
        [ReadRegion messagesPtr ((MAX_LENGTH_ED25519_MESSAGE + 4) * MAX_COUNT_ED25519_BATCH),
         ReadRegion signaturesPtr ((MAX_LENGTH_ED25519_SIGNATURE + 4) * MAX_COUNT_ED25519_BATCH),
         ReadRegion publicKeysPtr ((EDDSA_PUBKEY_LEN + 4) * MAX_COUNT_ED25519_BATCH),
         DecodeSections messagesBuf, DecodeSections signaturesBuf,
         DecodeSections publicKeysBuf]\<rparr>"

subsection \<open>The sections format\<close>

definition be_nat :: "buffer \<Rightarrow> nat" where
  "be_nat bs = foldl (\<lambda>acc b. acc * 256 + unat b) 0 bs"

text \<open>
  Modelled from the spec: \<^verbatim>\<open>decodeSections\<close> of \<^verbatim>\<open>./sections.js\<close> is not among the
  sources. The specification gives the format: a byte buffer holding N items, each item
  prefixed by a 4-byte length followed by that many payload bytes, decoded into an ordered
  sequence of byte buffers; malformed sections are a host fault. The byte order of the
  length is not given; it is read big-endian here.
\<close>
function spec_decodeSections :: "buffer \<Rightarrow> fault + buffer list" where
  "spec_decodeSections buf =
     (if buf = [] then Inr []
      else if length buf < 4 then Inl SectionsError
      else
        let n = be_nat (take 4 buf); rest = drop 4 buf
        in if length rest < n then Inl SectionsError
           else (case spec_decodeSections (drop n rest) of
                   Inl e \<Rightarrow> Inl e
                 | Inr items \<Rightarrow> Inr (take n rest # items)))"
  by pat_completeness auto
termination
  by (relation "measure length") auto

subsection \<open>A small environment for evaluating the model\<close>

text \<open>
  Modelled from the spec: \<^verbatim>\<open>readRegion\<close> and \<^verbatim>\<open>writeRegion\<close> of \<^verbatim>\<open>./memory.js\<close> are
  not among the sources. The specification says that a region is a (pointer, length)
  slice of the guest's memory, that \<^verbatim>\<open>readRegion\<close> copies at most \<open>maxLength\<close> bytes and
  fails with a region error where the region is not inside the memory, that nothing is
  truncated or clamped, and that \<^verbatim>\<open>writeRegion\<close> fails the same way. The sample guest
  is the list of its regions, each a pointer with its content, the newest first. A
  read fails where there is no region at the pointer or the region is longer than
  \<open>maxLength\<close>; a write fails where there is no region or the data does not fit.
\<close>
type_synonym sample_guest = "(int \<times> buffer) list"

definition sample_readRegion :: "sample_guest \<Rightarrow> int \<Rightarrow> nat \<Rightarrow> fault + buffer" where
  "sample_readRegion g ptr maxLength =
     (case map_of g ptr of
        None \<Rightarrow> Inl RegionError
      | Some content \<Rightarrow> if length content \<le> maxLength then Inr content else Inl RegionError)"

definition sample_writeRegion :: "sample_guest \<Rightarrow> int \<Rightarrow> buffer \<Rightarrow> fault + sample_guest" where
  "sample_writeRegion g ptr data =
     (case map_of g ptr of
        None \<Rightarrow> Inl RegionError
      | Some content \<Rightarrow>
          if length data \<le> length content then Inr ((ptr, data) # g) else Inl RegionError)"

text \<open>The sample allocator: a fresh region of \<open>n\<close> zero bytes above every pointer in use.\<close>
definition sample_allocate :: "sample_guest \<Rightarrow> nat \<Rightarrow> (fault + int) \<times> sample_guest" where
  "sample_allocate g n =
     (let p = 1 + foldr (\<lambda>(q, _) m. max q m) g 0
      in (Inr p, (p, replicate n 0) # g))"

text \<open>
  The sample string conversions. \<open>sample_toString_utf8\<close> is exact on ASCII bytes and
  gives U+FFFD for every other byte. The base64url codec is the unpadded one of RFC 4648;
  decoding stops at the first character outside the alphabet.
\<close>
definition sample_toString_utf8 :: "buffer \<Rightarrow> jsstring" where
  "sample_toString_utf8 buf = map (\<lambda>b. if unat b < 128 then unat b else 65533) buf"

definition b64url_char :: "nat \<Rightarrow> nat" where
  "b64url_char v =
     (if v < 26 then 65 + v else if v < 52 then 71 + v else if v < 62 then v - 4
      else if v = 62 then 45 else 95)"

definition b64url_value :: "nat \<Rightarrow> nat option" where
  "b64url_value c =
     (if 65 \<le> c \<and> c \<le> 90 then Some (c - 65)
      else if 97 \<le> c \<and> c \<le> 122 then Some (c - 71)
      else if 48 \<le> c \<and> c \<le> 57 then Some (c + 4)
      else if c = 45 then Some 62
      else if c = 95 then Some 63
      else None)"

fun b64url_encode :: "nat list \<Rightarrow> nat list" where
  "b64url_encode (a # b # c # rest) =
     [a div 4, (a mod 4) * 16 + b div 16, (b mod 16) * 4 + c div 64, c mod 64]
     @ b64url_encode rest"
| "b64url_encode [a, b] = [a div 4, (a mod 4) * 16 + b div 16, (b mod 16) * 4]"
| "b64url_encode [a] = [a div 4, (a mod 4) * 16]"
| "b64url_encode [] = []"

fun b64url_decode :: "nat list \<Rightarrow> nat list" where
  "b64url_decode (p # q # r # t # rest) =
     [p * 4 + q div 16, (q mod 16) * 16 + r div 4, (r mod 4) * 64 + t] @ b64url_decode rest"
| "b64url_decode [p, q, r] = [p * 4 + q div 16, (q mod 16) * 16 + r div 4]"
| "b64url_decode [p, q] = [p * 4 + q div 16]"
| "b64url_decode [p] = []"
| "b64url_decode [] = []"

definition sample_toString_base64url :: "buffer \<Rightarrow> jsstring" where
  "sample_toString_base64url buf = map b64url_char (b64url_encode (map unat buf))"

definition sample_from_base64url :: "jsstring \<Rightarrow> buffer" where
  "sample_from_base64url str =
     map of_nat (b64url_decode (map the (takeWhile (\<lambda>v. v \<noteq> None) (map b64url_value str))))"

text \<open>The sample address codec accepts the normalized base64url strings.\<close>
definition sample_canonicalAddress :: "jsstring \<Rightarrow> fault + buffer" where
  "sample_canonicalAddress human =
     (if sample_toString_base64url (sample_from_base64url human) = human
      then Inr (sample_from_base64url human)
      else Inl (BackendError ''invalid address''))"

text \<open>
  The sample signature libraries stand in for the curve arithmetic, which is not part of
  the repository: a signature is accepted when it is the message followed by the key, and
  recovery checks the recovery id only (0 to 3), as the library does before anything else.
  \<open>sample_verify\<close> gives a verdict on buffers of any length, where the libraries raise on
  a signature that is not 64 bytes long; \<open>strict_verify\<close> below keeps those length checks.
\<close>
definition sample_verify :: "buffer \<Rightarrow> buffer \<Rightarrow> buffer \<Rightarrow> fault + bool" where
  "sample_verify signature message pubkey = Inr (signature = message @ pubkey)"

definition sample_recoverPublicKey :: "int \<Rightarrow> int \<Rightarrow> int \<Rightarrow> buffer \<Rightarrow> fault + buffer" where
  "sample_recoverPublicKey r sv recoverParam hash =
     (if recoverParam \<in> {0, 1, 2, 3} then Inr (4 # replicate 64 0)
      else Inl (LibraryError ''recovery id invalid''))"

definition sample_env :: "sample_guest env" where
  "sample_env =
     \<lparr>readRegion = sample_readRegion,
      writeRegion = sample_writeRegion,
      allocate = sample_allocate,
      decodeSections = spec_decodeSections,
      canonicalAddress = sample_canonicalAddress,
      toString_utf8 = sample_toString_utf8,
      from_base64url = sample_from_base64url,
      toString_base64url = sample_toString_base64url,
      secp_verify = sample_verify,
      secp_recoverPublicKey = sample_recoverPublicKey,
      ed_verify = sample_verify\<rparr>"

definition sample_state :: "sample_guest \<Rightarrow> sample_guest host" where
  "sample_state g = \<lparr>guest = g, calls = []\<rparr>"



subsection \<open>Kinds of calls\<close>

text \<open>The calls that can change the guest: a write into its memory, a call of its allocator.\<close>
fun is_guest_effect :: "call \<Rightarrow> bool" where
  "is_guest_effect (WriteRegion ptr data) = True"
| "is_guest_effect (Allocate n) = True"
| "is_guest_effect c = False"


text \<open>The calls that verify a signature.\<close>
fun is_verification :: "call \<Rightarrow> bool" where
  "is_verification (EdVerify sg m k) = True"
| "is_verification (SecpVerify sg h k) = True"
| "is_verification c = False"

subsection \<open>Sample guests\<close>

text \<open>
  Guests for the sample environment. A batch has its messages at pointer 1, its signatures at
  pointer 2 and its public keys at pointer 3, each region in the sections format; the sample
  verifier accepts a signature that is the message followed by the key.
\<close>

definition guest_same :: sample_guest where
  "guest_same = [(1, [0,0,0,1,1, 0,0,0,1,2]), (2, [0,0,0,2,1,7, 0,0,0,2,2,8]), (3, [0,0,0,1,7, 0,0,0,1,8])]"

definition guest_one_message :: sample_guest where
  "guest_one_message = [(1, [0,0,0,1,1]), (2, [0,0,0,2,1,7, 0,0,0,2,1,8]), (3, [0,0,0,1,7, 0,0,0,1,8])]"

definition guest_one_key :: sample_guest where
  "guest_one_key = [(1, [0,0,0,1,1, 0,0,0,1,2]), (2, [0,0,0,2,1,7, 0,0,0,2,2,7]), (3, [0,0,0,1,7])]"

definition guest_mismatch :: sample_guest where
  "guest_mismatch = [(1, [0,0,0,1,1, 0,0,0,1,2]), (2, [0,0,0,2,1,7, 0,0,0,2,2,8, 0,0,0,2,3,9]), (3, [0,0,0,1,7, 0,0,0,1,8, 0,0,0,1,9])]"

definition guest_second_fails :: sample_guest where
  "guest_second_fails =
     [(1, [0,0,0,1,1, 0,0,0,1,2, 0,0,0,1,3]),
      (2, [0,0,0,2,1,7, 0,0,0,2,9,9, 0,0,0,2,3,7]),
      (3, [0,0,0,1,7])]"

definition guest_empty_batch :: sample_guest where
  "guest_empty_batch = [(1, []), (2, []), (3, [])]"

definition guest_empty_address :: sample_guest where
  "guest_empty_address = [(1, [])]"

definition guest_not_normalized :: sample_guest where
  "guest_not_normalized = [(1, [65, 66])]"

definition guest_normalized :: sample_guest where
  "guest_normalized = [(1, [81, 85, 74, 68])]"

definition guest_not_canonical :: sample_guest where
  "guest_not_canonical = [(1, [65, 66]), (2, [0, 0, 0, 0])]"

definition guest_bad_character :: sample_guest where
  "guest_bad_character = [(1, [33]), (2, [0, 0, 0, 0])]"

definition sample_hash :: buffer where
  "sample_hash = [0, 0, 0, 0, 0, 0, 0, 0, 0, 0, 0, 0, 0, 0, 0, 0, 0, 0, 0, 0, 0, 0, 0, 0, 0, 0, 0, 0, 0, 0, 0, 0]"

definition sample_signature :: buffer where
  "sample_signature = [0, 0, 0, 0, 0, 0, 0, 0, 0, 0, 0, 0, 0, 0, 0, 0, 0, 0, 0, 0, 0, 0, 0, 0, 0, 0, 0, 0, 0, 0, 0, 1, 0, 0, 0, 0, 0, 0, 0, 0, 0, 0, 0, 0, 0, 0, 0, 0, 0, 0, 0, 0, 0, 0, 0, 0, 0, 0, 0, 0, 0, 0, 0, 2]"

definition guest_recover :: sample_guest where
  "guest_recover = [(1, sample_hash), (2, sample_signature)]"

definition guest_verify :: sample_guest where
  "guest_verify = [(1, [1, 2]), (2, [1, 2, 3]), (3, [3])]"

definition guest_verify_moved :: sample_guest where
  "guest_verify_moved = [(7, [3]), (8, [1, 2, 3]), (9, [1, 2]), (10, [5, 5])]"





section \<open>Lemmas\<close>

declare verify_from.simps [simp del]
declare spec_decodeSections.simps [simp del]

lemma ed_verify_at_in_range:
  "i < length messages \<Longrightarrow> length signatures = length messages \<Longrightarrow>
   length publicKeys = length messages \<Longrightarrow>
   ed_verify_at env signatures messages publicKeys i =
     call_ed_verify env (signatures ! i) (messages ! i) (publicKeys ! i)"
  by (simp add: ed_verify_at_def js_index_def)

lemma verify_from_triples:
  "length signatures = length messages \<Longrightarrow> length publicKeys = length messages \<Longrightarrow>
   verify_from env signatures messages publicKeys i s =
     verify_triples env
       (map (\<lambda>j. (signatures ! j, messages ! j, publicKeys ! j)) [i..<length messages]) s"
proof (induction env signatures messages publicKeys i s rule: verify_from.induct)
  case (1 env signatures messages publicKeys i s)
  show ?case
  proof (cases "i < length messages")
    case False
    then show ?thesis by (simp add: verify_from.simps [of _ _ _ _ i])
  next
    case True
    then have range: "[i..<length messages] = i # [Suc i..<length messages]"
      by (simp add: upt_conv_Cons)
    obtain r s' where step: "call_ed_verify env (signatures ! i) (messages ! i) (publicKeys ! i) s = (r, s')"
      by (cases "call_ed_verify env (signatures ! i) (messages ! i) (publicKeys ! i) s")
    have at: "ed_verify_at env signatures messages publicKeys i s = (r, s')"
      using True "1.prems" step by (simp add: ed_verify_at_in_range)
    show ?thesis
    proof (cases r)
      case (Inl e)
      with True at step range show ?thesis
        by (simp add: verify_from.simps [of _ _ _ _ i])
    next
      case (Inr ok)
      show ?thesis
      proof (cases ok)
        case False
        with Inr True at step range show ?thesis
          by (simp add: verify_from.simps [of _ _ _ _ i])
      next
        case ok: True
        have "verify_from env signatures messages publicKeys (Suc i) s' =
              verify_triples env
                (map (\<lambda>j. (signatures ! j, messages ! j, publicKeys ! j)) [Suc i..<length messages]) s'"
          using "1.IH" [of r s' ok] True at Inr ok "1.prems" by simp
        with Inr ok True at step range show ?thesis
          by (simp add: verify_from.simps [of _ _ _ _ i])
      qed
    qed
  qed
qed


lemma batch_run:
  assumes "readRegion env (guest s) messagesPtr
             ((MAX_LENGTH_ED25519_MESSAGE + 4) * MAX_COUNT_ED25519_BATCH) = Inr messagesBuf"
    and "readRegion env (guest s) signaturesPtr
             ((MAX_LENGTH_ED25519_SIGNATURE + 4) * MAX_COUNT_ED25519_BATCH) = Inr signaturesBuf"
    and "readRegion env (guest s) publicKeysPtr
             ((EDDSA_PUBKEY_LEN + 4) * MAX_COUNT_ED25519_BATCH) = Inr publicKeysBuf"
    and "decodeSections env messagesBuf = Inr M"
    and "decodeSections env signaturesBuf = Inr S"
    and "decodeSections env publicKeysBuf = Inr K"
  shows "doEd25519BatchVerify env messagesPtr signaturesPtr publicKeysPtr s =
           (case expand_batch M S K of
              None \<Rightarrow> (Inr ED25519_VERIFY_CODE_INVALID,
                        batch_decoded messagesPtr signaturesPtr publicKeysPtr
                          messagesBuf signaturesBuf publicKeysBuf s)
            | Some ts \<Rightarrow> verify_triples env ts
                          (batch_decoded messagesPtr signaturesPtr publicKeysPtr
                             messagesBuf signaturesBuf publicKeysBuf s))"
proof -
  let ?s0 = "batch_decoded messagesPtr signaturesPtr publicKeysPtr
               messagesBuf signaturesBuf publicKeysBuf s"
  have run: "doEd25519BatchVerify env messagesPtr signaturesPtr publicKeysPtr s =
     (if length M = length S \<and> length S = length K
      then verify_expanded env M S (length S) K ?s0
      else if length M = 1 \<and> length S = length K
      then verify_expanded env (replicate (length S) (M ! 0)) S (length S) K ?s0
      else if length K = 1 \<and> length M = length S
      then verify_expanded env M S (length S) (replicate (length S) (K ! 0)) ?s0
      else (Inr ED25519_VERIFY_CODE_INVALID, ?s0))"
    using assms
    by (simp add: doEd25519BatchVerify_def thenH_def read_region_def decode_sections_def
        logged_def batch_decoded_def returnH_def Let_def)
  have same: "length M = length S \<Longrightarrow> length S = length K \<Longrightarrow>
      verify_expanded env M S (length S) K ?s0 =
      verify_triples env (map (\<lambda>i. (S ! i, M ! i, K ! i)) [0..<length S]) ?s0"
    by (simp add: verify_expanded_def verify_from_triples)
  have one_message: "length S = length K \<Longrightarrow>
      verify_expanded env (replicate (length S) (M ! 0)) S (length S) K ?s0 =
      verify_triples env (map (\<lambda>i. (S ! i, M ! 0, K ! i)) [0..<length S]) ?s0"
  proof -
    have "map (\<lambda>j. (S ! j, replicate (length S) (M ! 0) ! j, K ! j)) [0..<length S] =
          map (\<lambda>i. (S ! i, M ! 0, K ! i)) [0..<length S]"
      by (rule map_cong) simp_all
    moreover assume "length S = length K"
    ultimately show ?thesis
      by (simp add: verify_expanded_def verify_from_triples del: map_eq_conv)
  qed
  have one_key: "length M = length S \<Longrightarrow>
      verify_expanded env M S (length S) (replicate (length S) (K ! 0)) ?s0 =
      verify_triples env (map (\<lambda>i. (S ! i, M ! i, K ! 0)) [0..<length S]) ?s0"
  proof -
    have "map (\<lambda>j. (S ! j, M ! j, replicate (length S) (K ! 0) ! j)) [0..<length S] =
          map (\<lambda>i. (S ! i, M ! i, K ! 0)) [0..<length S]"
      by (rule map_cong) simp_all
    moreover assume "length M = length S"
    ultimately show ?thesis
      by (simp add: verify_expanded_def verify_from_triples del: map_eq_conv)
  qed
  show ?thesis
    unfolding run expand_batch_def
    using same one_message one_key by simp
qed

lemma verify_triples_guest: "guest (snd (verify_triples env ts s)) = guest s"
proof (induction ts arbitrary: s)
  case Nil
  show ?case by simp
next
  case (Cons t ts)
  obtain sg m k where t: "t = (sg, m, k)" by (cases t)
  show ?case
    using Cons.IH [of "logged (EdVerify sg m k) s"]
    by (simp add: t call_ed_verify_def logged_def split: sum.splits)
qed

lemma verify_triples_all:
  "\<forall>t\<in>set ts. passes env t \<Longrightarrow>
   verify_triples env ts s = (Inr ED25519_VERIFY_CODE_VALID, s\<lparr>calls := calls s @ map ed_call ts\<rparr>)"
proof (induction ts arbitrary: s)
  case Nil
  show ?case by simp
next
  case (Cons t ts)
  obtain sg m k where t: "t = (sg, m, k)" by (cases t)
  from Cons.prems have ok: "ed_verify env sg m k = Inr True" and rest: "\<forall>t\<in>set ts. passes env t"
    by (simp_all add: t passes_def)
  show ?case
    using Cons.IH [OF rest, of "logged (EdVerify sg m k) s"] ok
    by (simp add: t call_ed_verify_def logged_def ed_call_def)
qed

lemma verify_triples_first_failure:
  "j < length ts \<Longrightarrow> \<forall>i<j. passes env (ts ! i) \<Longrightarrow> fails env (ts ! j) \<Longrightarrow>
   verify_triples env ts s =
     (Inr ED25519_VERIFY_CODE_INVALID, s\<lparr>calls := calls s @ map ed_call (take (Suc j) ts)\<rparr>)"
proof (induction ts arbitrary: j s)
  case Nil
  then show ?case by simp
next
  case (Cons t ts)
  obtain sg m k where t: "t = (sg, m, k)" by (cases t)
  show ?case
  proof (cases j)
    case 0
    with Cons.prems have "ed_verify env sg m k = Inr False"
      by (simp add: t fails_def)
    with 0 show ?thesis
      by (simp add: t call_ed_verify_def logged_def ed_call_def)
  next
    case (Suc j')
    from Cons.prems Suc have ok: "ed_verify env sg m k = Inr True"
      by (auto simp: t passes_def)
    from Cons.prems Suc have j': "j' < length ts" and bad: "fails env (ts ! j')"
      by simp_all
    from Cons.prems Suc have before: "\<forall>i<j'. passes env (ts ! i)"
      by auto
    show ?thesis
      using Cons.IH [OF j' before bad, of "logged (EdVerify sg m k) s"] ok Suc
      by (simp add: t call_ed_verify_def logged_def ed_call_def)
  qed
qed

lemma verify_triples_valid_iff:
  "fst (verify_triples env ts s) = Inr ED25519_VERIFY_CODE_VALID \<longleftrightarrow> (\<forall>t\<in>set ts. passes env t)"
proof (induction ts arbitrary: s)
  case Nil
  show ?case by simp
next
  case (Cons t ts)
  obtain sg m k where t: "t = (sg, m, k)" by (cases t)
  show ?case
  proof (cases "ed_verify env sg m k")
    case (Inl e)
    then show ?thesis by (simp add: t call_ed_verify_def passes_def)
  next
    case (Inr ok)
    then show ?thesis
      using Cons.IH [of "logged (EdVerify sg m k) s"]
      by (cases ok)
         (simp_all add: t call_ed_verify_def passes_def ED25519_VERIFY_CODE_VALID_def
            ED25519_VERIFY_CODE_INVALID_def)
  qed
qed

lemmas sample_simps =
  sample_env_def sample_state_def sample_readRegion_def sample_writeRegion_def
  sample_allocate_def sample_verify_def
  MAX_LENGTH_ED25519_MESSAGE_def MAX_LENGTH_ED25519_SIGNATURE_def MAX_COUNT_ED25519_BATCH_def
  EDDSA_PUBKEY_LEN_def ED25519_VERIFY_CODE_VALID_def ED25519_VERIFY_CODE_INVALID_def
  spec_decodeSections.simps be_nat_def batch_decoded_def call_ed_verify_def logged_def

lemma writeToContract_ok:
  "allocate env (guest s) (length input) = (Inr p, g') \<Longrightarrow> p \<noteq> 0 \<Longrightarrow>
   writeRegion env g' p input = Inr g'' \<Longrightarrow>
   writeToContract env input s =
     (Inr p, s\<lparr>guest := g'', calls := calls s @ [Allocate (length input), WriteRegion p input]\<rparr>)"
  by (simp add: writeToContract_def thenH_def call_allocate_def write_region_def logged_def
      returnH_def)

lemma doAddrValidate_read:
  "readRegion env (guest s) sourcePtr MAX_LENGTH_HUMAN_ADDRESS = Inr sourceData \<Longrightarrow>
   doAddrValidate env sourcePtr s =
     (if sourceData = [] then writeToContract env (utf8_literal ''Input is empty'')
        (logged (ReadRegion sourcePtr MAX_LENGTH_HUMAN_ADDRESS) s)
      else if toString_base64url env (from_base64url env (toString_utf8 env sourceData))
              \<noteq> toString_utf8 env sourceData
      then writeToContract env (utf8_literal ''Address is not normalized'')
        (logged (ReadRegion sourcePtr MAX_LENGTH_HUMAN_ADDRESS) s)
      else (Inr 0, logged (ReadRegion sourcePtr MAX_LENGTH_HUMAN_ADDRESS) s))"
  by (simp add: doAddrValidate_def thenH_def read_region_def returnH_def Let_def)

lemmas address_simps =
  sample_env_def sample_state_def sample_readRegion_def sample_writeRegion_def
  sample_allocate_def sample_canonicalAddress_def sample_toString_utf8_def
  sample_toString_base64url_def sample_from_base64url_def b64url_value_def b64url_char_def
  MAX_LENGTH_HUMAN_ADDRESS_def logged_def utf8_literal_def

lemmas secp_simps =
  sample_env_def sample_state_def sample_readRegion_def sample_verify_def
  sample_recoverPublicKey_def MESSAGE_HASH_MAX_LEN_def ECDSA_SIGNATURE_LEN_def
  ECDSA_PUBKEY_MAX_LEN_def ECDSA_UNCOMPRESSED_PUBKEY_LEN_def
  SECP256K1_VERIFY_CODE_VALID_def SECP256K1_VERIFY_CODE_INVALID_def
  MAX_LENGTH_ED25519_MESSAGE_def MAX_LENGTH_ED25519_SIGNATURE_def EDDSA_PUBKEY_LEN_def
  ED25519_VERIFY_CODE_VALID_def ED25519_VERIFY_CODE_INVALID_def logged_def

lemma doSecp256k1Verify_run:
  "readRegion env (guest s) hashPtr MESSAGE_HASH_MAX_LEN = Inr hash \<Longrightarrow>
   readRegion env (guest s) signaturePtr ECDSA_SIGNATURE_LEN = Inr signature \<Longrightarrow>
   readRegion env (guest s) pubkeyPtr ECDSA_PUBKEY_MAX_LEN = Inr pubkey \<Longrightarrow>
   doSecp256k1Verify env hashPtr signaturePtr pubkeyPtr s =
     (case secp_verify env signature hash pubkey of
        Inl e \<Rightarrow> Inl e
      | Inr result \<Rightarrow>
          Inr (if result then SECP256K1_VERIFY_CODE_VALID else SECP256K1_VERIFY_CODE_INVALID),
      s\<lparr>calls := calls s @
         [ReadRegion hashPtr MESSAGE_HASH_MAX_LEN, ReadRegion signaturePtr ECDSA_SIGNATURE_LEN,
          ReadRegion pubkeyPtr ECDSA_PUBKEY_MAX_LEN, SecpVerify signature hash pubkey]\<rparr>)"
  by (simp add: doSecp256k1Verify_def thenH_def read_region_def call_secp_verify_def
      logged_def returnH_def split: sum.splits)

lemma doEd25519Verify_run:
  "readRegion env (guest s) messagePtr MAX_LENGTH_ED25519_MESSAGE = Inr message \<Longrightarrow>
   readRegion env (guest s) signaturePtr MAX_LENGTH_ED25519_SIGNATURE = Inr signature \<Longrightarrow>
   readRegion env (guest s) pubkeyPtr EDDSA_PUBKEY_LEN = Inr pubkey \<Longrightarrow>
   doEd25519Verify env messagePtr signaturePtr pubkeyPtr s =
     (case ed_verify env signature message pubkey of
        Inl e \<Rightarrow> Inl e
      | Inr result \<Rightarrow>
          Inr (if result then ED25519_VERIFY_CODE_VALID else ED25519_VERIFY_CODE_INVALID),
      s\<lparr>calls := calls s @
         [ReadRegion messagePtr MAX_LENGTH_ED25519_MESSAGE,
          ReadRegion signaturePtr MAX_LENGTH_ED25519_SIGNATURE,
          ReadRegion pubkeyPtr EDDSA_PUBKEY_LEN, EdVerify signature message pubkey]\<rparr>)"
  by (simp add: doEd25519Verify_def thenH_def read_region_def call_ed_verify_def
      logged_def returnH_def split: sum.splits)

lemma doSecp256k1Verify_pure:
  "guest (snd (doSecp256k1Verify env hashPtr signaturePtr pubkeyPtr s)) = guest s
   \<and> filter is_guest_effect (calls (snd (doSecp256k1Verify env hashPtr signaturePtr pubkeyPtr s)))
     = filter is_guest_effect (calls s)"
  by (simp add: doSecp256k1Verify_def thenH_def read_region_def call_secp_verify_def
      logged_def returnH_def split: sum.splits)

lemma doEd25519Verify_pure:
  "guest (snd (doEd25519Verify env messagePtr signaturePtr pubkeyPtr s)) = guest s
   \<and> filter is_guest_effect (calls (snd (doEd25519Verify env messagePtr signaturePtr pubkeyPtr s)))
     = filter is_guest_effect (calls s)"
  by (simp add: doEd25519Verify_def thenH_def read_region_def call_ed_verify_def
      logged_def returnH_def split: sum.splits)

















section \<open>Theorems\<close>

text \<open>
  Claim C9. \<^verbatim>\<open>db_scan\<close> and \<^verbatim>\<open>db_next\<close> raise the runtime-level fault
  "Unsupported function" for every argument and from every state, and they leave the
  state as it was: the guest is unchanged and no call of an imported function (no read, no
  write, no allocation) has been made.
\<close>
theorem db_scan_next_unsupported:
  "doDbScan env startPtr endPtr order s = (Inl (RuntimeErr ''Unsupported function''), s)
   \<and> doDbNext env iteratorId s = (Inl (RuntimeErr ''Unsupported function''), s)"
  by (simp add: doDbScan_def doDbNext_def throwH_def)


text \<open>
  Claim C1. Once the three regions are read and decoded into \<open>M\<close>, \<open>S\<close>, \<open>K\<close>,
  \<^verbatim>\<open>ed25519_batch_verify\<close> verifies, in index order, the triples (S[i], M[i], K[i]) when
  the three lengths are equal; else the triples (S[i], M[0], K[i]) when there is one message
  and as many signatures as keys; else the triples (S[i], M[i], K[0]) when there is one key
  and as many messages as signatures; and for every other combination of lengths it returns
  INVALID (1) having called the verifier for no triple: the calls made are the three reads
  and the three decodings.
\<close>
theorem batch_shape_rules:
  assumes "readRegion env (guest s) messagesPtr
             ((MAX_LENGTH_ED25519_MESSAGE + 4) * MAX_COUNT_ED25519_BATCH) = Inr messagesBuf"
    and "readRegion env (guest s) signaturesPtr
             ((MAX_LENGTH_ED25519_SIGNATURE + 4) * MAX_COUNT_ED25519_BATCH) = Inr signaturesBuf"
    and "readRegion env (guest s) publicKeysPtr
             ((EDDSA_PUBKEY_LEN + 4) * MAX_COUNT_ED25519_BATCH) = Inr publicKeysBuf"
    and "decodeSections env messagesBuf = Inr M"
    and "decodeSections env signaturesBuf = Inr S"
    and "decodeSections env publicKeysBuf = Inr K"
  shows "doEd25519BatchVerify env messagesPtr signaturesPtr publicKeysPtr s =
           (let s0 = batch_decoded messagesPtr signaturesPtr publicKeysPtr
                       messagesBuf signaturesBuf publicKeysBuf s
            in if length M = length S \<and> length S = length K
               then verify_triples env (map (\<lambda>i. (S ! i, M ! i, K ! i)) [0..<length S]) s0
               else if length M = 1 \<and> length S = length K
               then verify_triples env (map (\<lambda>i. (S ! i, M ! 0, K ! i)) [0..<length S]) s0
               else if length K = 1 \<and> length M = length S
               then verify_triples env (map (\<lambda>i. (S ! i, M ! i, K ! 0)) [0..<length S]) s0
               else (Inr ED25519_VERIFY_CODE_INVALID, s0))
         \<and> (expand_batch M S K = None \<longrightarrow>
              filter is_verification
                (calls (snd (doEd25519BatchVerify env messagesPtr signaturesPtr publicKeysPtr s)))
              = filter is_verification (calls s))"
  using batch_run [OF assms]
  by (simp add: expand_batch_def Let_def batch_decoded_def)

text \<open>The four shapes of C1 on the sample environment: equal lengths, one message, one key,
  and the lengths 2, 3, 3 that no rule accepts.\<close>
theorem batch_shape_rules_witness:
  "doEd25519BatchVerify sample_env 1 2 3 (sample_state guest_same) =
     (Inr 0, \<lparr>guest = guest_same, calls =
        [ReadRegion 1 33555456, ReadRegion 2 17408, ReadRegion 3 9216,
         DecodeSections [0,0,0,1,1, 0,0,0,1,2], DecodeSections [0,0,0,2,1,7, 0,0,0,2,2,8],
         DecodeSections [0,0,0,1,7, 0,0,0,1,8],
         EdVerify [1,7] [1] [7], EdVerify [2,8] [2] [8]]\<rparr>)
   \<and> doEd25519BatchVerify sample_env 1 2 3 (sample_state guest_one_message) =
     (Inr 0, \<lparr>guest = guest_one_message, calls =
        [ReadRegion 1 33555456, ReadRegion 2 17408, ReadRegion 3 9216,
         DecodeSections [0,0,0,1,1], DecodeSections [0,0,0,2,1,7, 0,0,0,2,1,8],
         DecodeSections [0,0,0,1,7, 0,0,0,1,8],
         EdVerify [1,7] [1] [7], EdVerify [1,8] [1] [8]]\<rparr>)
   \<and> doEd25519BatchVerify sample_env 1 2 3 (sample_state guest_one_key) =
     (Inr 0, \<lparr>guest = guest_one_key, calls =
        [ReadRegion 1 33555456, ReadRegion 2 17408, ReadRegion 3 9216,
         DecodeSections [0,0,0,1,1, 0,0,0,1,2], DecodeSections [0,0,0,2,1,7, 0,0,0,2,2,7],
         DecodeSections [0,0,0,1,7],
         EdVerify [1,7] [1] [7], EdVerify [2,7] [2] [7]]\<rparr>)
   \<and> doEd25519BatchVerify sample_env 1 2 3 (sample_state guest_mismatch) =
     (Inr 1, \<lparr>guest = guest_mismatch, calls =
        [ReadRegion 1 33555456, ReadRegion 2 17408, ReadRegion 3 9216,
         DecodeSections [0,0,0,1,1, 0,0,0,1,2],
         DecodeSections [0,0,0,2,1,7, 0,0,0,2,2,8, 0,0,0,2,3,9],
         DecodeSections [0,0,0,1,7, 0,0,0,1,8, 0,0,0,1,9]]\<rparr>)"
proof (intro conjI)
  show "doEd25519BatchVerify sample_env 1 2 3 (sample_state guest_same) =
     (Inr 0, \<lparr>guest = guest_same, calls =
        [ReadRegion 1 33555456, ReadRegion 2 17408, ReadRegion 3 9216,
         DecodeSections [0,0,0,1,1, 0,0,0,1,2], DecodeSections [0,0,0,2,1,7, 0,0,0,2,2,8],
         DecodeSections [0,0,0,1,7, 0,0,0,1,8],
         EdVerify [1,7] [1] [7], EdVerify [2,8] [2] [8]]\<rparr>)"
    using batch_shape_rules [of sample_env "sample_state guest_same" 1 "[0,0,0,1,1, 0,0,0,1,2]"
        2 "[0,0,0,2,1,7, 0,0,0,2,2,8]" 3 "[0,0,0,1,7, 0,0,0,1,8]"
        "[[1],[2]]" "[[1,7],[2,8]]" "[[7],[8]]"]
    by (simp add: sample_simps guest_same_def)
  show "doEd25519BatchVerify sample_env 1 2 3 (sample_state guest_one_message) =
     (Inr 0, \<lparr>guest = guest_one_message, calls =
        [ReadRegion 1 33555456, ReadRegion 2 17408, ReadRegion 3 9216,
         DecodeSections [0,0,0,1,1], DecodeSections [0,0,0,2,1,7, 0,0,0,2,1,8],
         DecodeSections [0,0,0,1,7, 0,0,0,1,8],
         EdVerify [1,7] [1] [7], EdVerify [1,8] [1] [8]]\<rparr>)"
    using batch_shape_rules [of sample_env "sample_state guest_one_message" 1 "[0,0,0,1,1]"
        2 "[0,0,0,2,1,7, 0,0,0,2,1,8]" 3 "[0,0,0,1,7, 0,0,0,1,8]"
        "[[1]]" "[[1,7],[1,8]]" "[[7],[8]]"]
    by (simp add: sample_simps guest_one_message_def)
  show "doEd25519BatchVerify sample_env 1 2 3 (sample_state guest_one_key) =
     (Inr 0, \<lparr>guest = guest_one_key, calls =
        [ReadRegion 1 33555456, ReadRegion 2 17408, ReadRegion 3 9216,
         DecodeSections [0,0,0,1,1, 0,0,0,1,2], DecodeSections [0,0,0,2,1,7, 0,0,0,2,2,7],
         DecodeSections [0,0,0,1,7],
         EdVerify [1,7] [1] [7], EdVerify [2,7] [2] [7]]\<rparr>)"
    using batch_shape_rules [of sample_env "sample_state guest_one_key" 1 "[0,0,0,1,1, 0,0,0,1,2]"
        2 "[0,0,0,2,1,7, 0,0,0,2,2,7]" 3 "[0,0,0,1,7]"
        "[[1],[2]]" "[[1,7],[2,7]]" "[[7]]"]
    by (simp add: sample_simps guest_one_key_def)
  show "doEd25519BatchVerify sample_env 1 2 3 (sample_state guest_mismatch) =
     (Inr 1, \<lparr>guest = guest_mismatch, calls =
        [ReadRegion 1 33555456, ReadRegion 2 17408, ReadRegion 3 9216,
         DecodeSections [0,0,0,1,1, 0,0,0,1,2],
         DecodeSections [0,0,0,2,1,7, 0,0,0,2,2,8, 0,0,0,2,3,9],
         DecodeSections [0,0,0,1,7, 0,0,0,1,8, 0,0,0,1,9]]\<rparr>)"
    using batch_shape_rules [of sample_env "sample_state guest_mismatch" 1 "[0,0,0,1,1, 0,0,0,1,2]"
        2 "[0,0,0,2,1,7, 0,0,0,2,2,8, 0,0,0,2,3,9]" 3 "[0,0,0,1,7, 0,0,0,1,8, 0,0,0,1,9]"
        "[[1],[2]]" "[[1,7],[2,8],[3,9]]" "[[7],[8],[9]]"]
    by (simp add: sample_simps guest_mismatch_def)
qed

text \<open>
  Claim C2. For a batch accepted by one of the three shape rules, with expansion \<open>ts\<close>,
  \<^verbatim>\<open>ed25519_batch_verify\<close> returns VALID (0) exactly when every triple of \<open>ts\<close> passes
  \<^verbatim>\<open>ed.verify\<close>; and when triple \<open>j\<close> is the first one that fails, it returns INVALID (1)
  and the verifier has been called for the triples up to \<open>j\<close> and for no later one.
\<close>
theorem batch_all_or_nothing:
  assumes "readRegion env (guest s) messagesPtr
             ((MAX_LENGTH_ED25519_MESSAGE + 4) * MAX_COUNT_ED25519_BATCH) = Inr messagesBuf"
    and "readRegion env (guest s) signaturesPtr
             ((MAX_LENGTH_ED25519_SIGNATURE + 4) * MAX_COUNT_ED25519_BATCH) = Inr signaturesBuf"
    and "readRegion env (guest s) publicKeysPtr
             ((EDDSA_PUBKEY_LEN + 4) * MAX_COUNT_ED25519_BATCH) = Inr publicKeysBuf"
    and "decodeSections env messagesBuf = Inr M"
    and "decodeSections env signaturesBuf = Inr S"
    and "decodeSections env publicKeysBuf = Inr K"
    and "expand_batch M S K = Some ts"
  shows "(fst (doEd25519BatchVerify env messagesPtr signaturesPtr publicKeysPtr s)
            = Inr ED25519_VERIFY_CODE_VALID
          \<longleftrightarrow> (\<forall>t\<in>set ts. passes env t))
       \<and> (j < length ts \<and> (\<forall>i<j. passes env (ts ! i)) \<and> fails env (ts ! j) \<longrightarrow>
            doEd25519BatchVerify env messagesPtr signaturesPtr publicKeysPtr s =
              (Inr ED25519_VERIFY_CODE_INVALID,
               s\<lparr>calls := calls (batch_decoded messagesPtr signaturesPtr publicKeysPtr
                                   messagesBuf signaturesBuf publicKeysBuf s)
                            @ map ed_call (take (Suc j) ts)\<rparr>))"
proof -
  let ?s0 = "batch_decoded messagesPtr signaturesPtr publicKeysPtr
               messagesBuf signaturesBuf publicKeysBuf s"
  have run: "doEd25519BatchVerify env messagesPtr signaturesPtr publicKeysPtr s =
             verify_triples env ts ?s0"
    using batch_run [OF assms(1-6)] assms(7) by simp
  have valid: "fst (verify_triples env ts ?s0) = Inr ED25519_VERIFY_CODE_VALID
               \<longleftrightarrow> (\<forall>t\<in>set ts. passes env t)"
    by (rule verify_triples_valid_iff)
  have stop: "j < length ts \<and> (\<forall>i<j. passes env (ts ! i)) \<and> fails env (ts ! j) \<longrightarrow>
              verify_triples env ts ?s0 =
                (Inr ED25519_VERIFY_CODE_INVALID,
                 s\<lparr>calls := calls ?s0 @ map ed_call (take (Suc j) ts)\<rparr>)"
  proof (intro impI, elim conjE)
    assume "j < length ts" "\<forall>i<j. passes env (ts ! i)" "fails env (ts ! j)"
    then have "verify_triples env ts ?s0 =
      (Inr ED25519_VERIFY_CODE_INVALID, ?s0\<lparr>calls := calls ?s0 @ map ed_call (take (Suc j) ts)\<rparr>)"
      by (rule verify_triples_first_failure)
    then show "verify_triples env ts ?s0 =
      (Inr ED25519_VERIFY_CODE_INVALID, s\<lparr>calls := calls ?s0 @ map ed_call (take (Suc j) ts)\<rparr>)"
      by (simp add: batch_decoded_def)
  qed
  show ?thesis
    unfolding run using valid stop by simp
qed

text \<open>Three messages under one key, the second signature wrong: INVALID after two calls of
  the verifier.\<close>
theorem batch_all_or_nothing_witness:
  "doEd25519BatchVerify sample_env 1 2 3 (sample_state guest_second_fails) =
     (Inr 1, \<lparr>guest = guest_second_fails, calls =
        [ReadRegion 1 33555456, ReadRegion 2 17408, ReadRegion 3 9216,
         DecodeSections [0,0,0,1,1, 0,0,0,1,2, 0,0,0,1,3],
         DecodeSections [0,0,0,2,1,7, 0,0,0,2,9,9, 0,0,0,2,3,7],
         DecodeSections [0,0,0,1,7],
         EdVerify [1,7] [1] [7], EdVerify [9,9] [2] [7]]\<rparr>)
   \<and> \<not> passes sample_env ([9,9], [2], [7])"
  using batch_all_or_nothing [of sample_env "sample_state guest_second_fails"
      1 "[0,0,0,1,1, 0,0,0,1,2, 0,0,0,1,3]"
      2 "[0,0,0,2,1,7, 0,0,0,2,9,9, 0,0,0,2,3,7]" 3 "[0,0,0,1,7]"
      "[[1],[2],[3]]" "[[1,7],[9,9],[3,7]]" "[[7]]"
      "[([1,7],[1],[7]), ([9,9],[2],[7]), ([3,7],[3],[7])]" 1]
  by (simp add: sample_simps guest_second_fails_def expand_batch_def passes_def fails_def
      ed_call_def)

text \<open>
  Claim C10. When the three regions decode to empty sequences, \<^verbatim>\<open>ed25519_batch_verify\<close>
  returns VALID (0) and the verifier is not called.
\<close>
theorem batch_empty_valid:
  assumes "readRegion env (guest s) messagesPtr
             ((MAX_LENGTH_ED25519_MESSAGE + 4) * MAX_COUNT_ED25519_BATCH) = Inr messagesBuf"
    and "readRegion env (guest s) signaturesPtr
             ((MAX_LENGTH_ED25519_SIGNATURE + 4) * MAX_COUNT_ED25519_BATCH) = Inr signaturesBuf"
    and "readRegion env (guest s) publicKeysPtr
             ((EDDSA_PUBKEY_LEN + 4) * MAX_COUNT_ED25519_BATCH) = Inr publicKeysBuf"
    and "decodeSections env messagesBuf = Inr []"
    and "decodeSections env signaturesBuf = Inr []"
    and "decodeSections env publicKeysBuf = Inr []"
  shows "doEd25519BatchVerify env messagesPtr signaturesPtr publicKeysPtr s =
           (Inr ED25519_VERIFY_CODE_VALID,
            batch_decoded messagesPtr signaturesPtr publicKeysPtr
              messagesBuf signaturesBuf publicKeysBuf s)
         \<and> filter is_verification
             (calls (snd (doEd25519BatchVerify env messagesPtr signaturesPtr publicKeysPtr s)))
           = filter is_verification (calls s)"
  using batch_run [OF assms]
  by (simp add: expand_batch_def batch_decoded_def)

text \<open>Three empty regions on the sample environment.\<close>
theorem batch_empty_valid_witness:
  "doEd25519BatchVerify sample_env 1 2 3 (sample_state guest_empty_batch) =
     (Inr 0, \<lparr>guest = guest_empty_batch, calls =
        [ReadRegion 1 33555456, ReadRegion 2 17408, ReadRegion 3 9216,
         DecodeSections [], DecodeSections [], DecodeSections []]\<rparr>)"
  using batch_empty_valid [of sample_env "sample_state guest_empty_batch" 1 "[]" 2 "[]" 3 "[]"]
  by (simp add: sample_simps guest_empty_batch_def)

text \<open>
  Claim C3. With the source region read as \<open>sourceData\<close>: on an empty input
  \<^verbatim>\<open>addr_validate\<close> hands the string "Input is empty" to \<^verbatim>\<open>writeToContract\<close>; on a
  non-empty input that its base64url round trip does not reproduce, the string "Address is
  not normalized"; and on a non-empty input that the round trip reproduces it returns 0,
  with nothing allocated or written. What \<^verbatim>\<open>writeToContract\<close> returns is the pointer the
  guest's allocator gave, with the string written there (the last conjunct). The code
  compares JavaScript strings, the input decoded as UTF-8 and its re-encoding; the
  re-encoding is ASCII, so the two are equal exactly when the input bytes are the bytes of
  the re-encoding.
\<close>
theorem addr_validate_cases:
  assumes "readRegion env (guest s) sourcePtr MAX_LENGTH_HUMAN_ADDRESS = Inr sourceData"
  shows "(sourceData = [] \<longrightarrow>
            doAddrValidate env sourcePtr s =
              writeToContract env (utf8_literal ''Input is empty'')
                (logged (ReadRegion sourcePtr MAX_LENGTH_HUMAN_ADDRESS) s))
       \<and> (sourceData \<noteq> [] \<and>
          toString_base64url env (from_base64url env (toString_utf8 env sourceData))
            \<noteq> toString_utf8 env sourceData \<longrightarrow>
            doAddrValidate env sourcePtr s =
              writeToContract env (utf8_literal ''Address is not normalized'')
                (logged (ReadRegion sourcePtr MAX_LENGTH_HUMAN_ADDRESS) s))
       \<and> (sourceData \<noteq> [] \<and>
          toString_base64url env (from_base64url env (toString_utf8 env sourceData))
            = toString_utf8 env sourceData \<longrightarrow>
            doAddrValidate env sourcePtr s =
              (Inr 0, logged (ReadRegion sourcePtr MAX_LENGTH_HUMAN_ADDRESS) s))
       \<and> (allocate env (guest s) (length message) = (Inr p, g') \<and> p \<noteq> 0 \<and>
          writeRegion env g' p message = Inr g'' \<longrightarrow>
            writeToContract env message (logged (ReadRegion sourcePtr MAX_LENGTH_HUMAN_ADDRESS) s) =
              (Inr p, s\<lparr>guest := g'', calls := calls s @
                 [ReadRegion sourcePtr MAX_LENGTH_HUMAN_ADDRESS, Allocate (length message),
                  WriteRegion p message]\<rparr>))"
proof (intro conjI impI)
  assume "allocate env (guest s) (length message) = (Inr p, g') \<and> p \<noteq> 0 \<and>
          writeRegion env g' p message = Inr g''"
  then show "writeToContract env message (logged (ReadRegion sourcePtr MAX_LENGTH_HUMAN_ADDRESS) s) =
              (Inr p, s\<lparr>guest := g'', calls := calls s @
                 [ReadRegion sourcePtr MAX_LENGTH_HUMAN_ADDRESS, Allocate (length message),
                  WriteRegion p message]\<rparr>)"
    using writeToContract_ok [of env "logged (ReadRegion sourcePtr MAX_LENGTH_HUMAN_ADDRESS) s"
        message p g' g'']
    by (simp add: logged_def)
qed (simp_all add: doAddrValidate_read [OF assms])

text \<open>The three cases of C3 on the sample environment: an empty region, the string "AB"
  (whose round trip is "AA") and the string "QUJD".\<close>
theorem addr_validate_cases_witness:
  "doAddrValidate sample_env 1 (sample_state guest_empty_address) =
     (Inr 2, \<lparr>guest = [(2, utf8_literal ''Input is empty''), (2, [0, 0, 0, 0, 0, 0, 0, 0, 0, 0, 0, 0, 0, 0]), (1, [])],
              calls = [ReadRegion 1 256, Allocate 14,
                       WriteRegion 2 (utf8_literal ''Input is empty'')]\<rparr>)
   \<and> doAddrValidate sample_env 1 (sample_state guest_not_normalized) =
     (Inr 2, \<lparr>guest = [(2, utf8_literal ''Address is not normalized''), (2, [0, 0, 0, 0, 0, 0, 0, 0, 0, 0, 0, 0, 0, 0, 0, 0, 0, 0, 0, 0, 0, 0, 0, 0, 0]),
                       (1, [65, 66])],
              calls = [ReadRegion 1 256, Allocate 25,
                       WriteRegion 2 (utf8_literal ''Address is not normalized'')]\<rparr>)
   \<and> doAddrValidate sample_env 1 (sample_state guest_normalized) =
     (Inr 0, \<lparr>guest = guest_normalized, calls = [ReadRegion 1 256]\<rparr>)"
proof (intro conjI)
  show "doAddrValidate sample_env 1 (sample_state guest_empty_address) =
     (Inr 2, \<lparr>guest = [(2, utf8_literal ''Input is empty''), (2, [0, 0, 0, 0, 0, 0, 0, 0, 0, 0, 0, 0, 0, 0]), (1, [])],
              calls = [ReadRegion 1 256, Allocate 14,
                       WriteRegion 2 (utf8_literal ''Input is empty'')]\<rparr>)"
    using addr_validate_cases [of sample_env "sample_state guest_empty_address" 1 "[]"
        "utf8_literal ''Input is empty''" 2 "[(2, [0, 0, 0, 0, 0, 0, 0, 0, 0, 0, 0, 0, 0, 0]), (1, [])]"
        "[(2, utf8_literal ''Input is empty''), (2, [0, 0, 0, 0, 0, 0, 0, 0, 0, 0, 0, 0, 0, 0]), (1, [])]"]
    by (simp add: address_simps guest_empty_address_def)
  show "doAddrValidate sample_env 1 (sample_state guest_not_normalized) =
     (Inr 2, \<lparr>guest = [(2, utf8_literal ''Address is not normalized''), (2, [0, 0, 0, 0, 0, 0, 0, 0, 0, 0, 0, 0, 0, 0, 0, 0, 0, 0, 0, 0, 0, 0, 0, 0, 0]),
                       (1, [65, 66])],
              calls = [ReadRegion 1 256, Allocate 25,
                       WriteRegion 2 (utf8_literal ''Address is not normalized'')]\<rparr>)"
    using addr_validate_cases [of sample_env "sample_state guest_not_normalized" 1 "[65, 66]"
        "utf8_literal ''Address is not normalized''" 2 "[(2, [0, 0, 0, 0, 0, 0, 0, 0, 0, 0, 0, 0, 0, 0, 0, 0, 0, 0, 0, 0, 0, 0, 0, 0, 0]), (1, [65, 66])]"
        "[(2, utf8_literal ''Address is not normalized''), (2, [0, 0, 0, 0, 0, 0, 0, 0, 0, 0, 0, 0, 0, 0, 0, 0, 0, 0, 0, 0, 0, 0, 0, 0, 0]), (1, [65, 66])]"]
    by (simp add: address_simps guest_not_normalized_def)
  show "doAddrValidate sample_env 1 (sample_state guest_normalized) =
     (Inr 0, \<lparr>guest = guest_normalized, calls = [ReadRegion 1 256]\<rparr>)"
    using addr_validate_cases [of sample_env "sample_state guest_normalized" 1 "[81, 85, 74, 68]"]
    by (simp add: address_simps guest_normalized_def)
qed




text \<open>
  Claim C6, as amended. When the backend's \<^verbatim>\<open>canonicalAddress\<close> raises on a non-empty
  input, \<^verbatim>\<open>addr_canonicalize\<close> raises the same exception: no error message is allocated,
  nothing is written to the destination and no pointer is returned.
\<close>
theorem addr_canonicalize_codec_failure:
  assumes "readRegion env (guest s) sourcePtr MAX_LENGTH_HUMAN_ADDRESS = Inr sourceData"
    and "sourceData \<noteq> []"
    and "canonicalAddress env (toString_utf8 env sourceData) = Inl e"
  shows "doAddrCanonicalize env sourcePtr destinationPtr s =
           (Inl e, s\<lparr>calls := calls s @
              [ReadRegion sourcePtr MAX_LENGTH_HUMAN_ADDRESS,
               CanonicalAddress (toString_utf8 env sourceData)]\<rparr>)"
  using assms
  by (simp add: doAddrCanonicalize_def thenH_def read_region_def canonical_address_def
      logged_def)

text \<open>The sample codec rejects the string "!".\<close>
theorem addr_canonicalize_codec_failure_witness:
  "doAddrCanonicalize sample_env 1 2 (sample_state guest_bad_character) =
     (Inl (BackendError ''invalid address''),
      \<lparr>guest = guest_bad_character, calls = [ReadRegion 1 256, CanonicalAddress [33]]\<rparr>)"
  using addr_canonicalize_codec_failure [of sample_env "sample_state guest_bad_character" 1
      "[33]" "BackendError ''invalid address''" 2]
  by (simp add: address_simps guest_bad_character_def)

text \<open>
  Claim C6 as stated fails: on the string "AB", which the sample codec rejects,
  \<^verbatim>\<open>addr_canonicalize\<close> ends with the codec's exception after the read and the codec
  call; there is no allocation and no returned pointer.
\<close>
theorem addr_canonicalize_error_pointer_counterexample:
  "doAddrCanonicalize sample_env 1 2 (sample_state guest_not_canonical) =
     (Inl (BackendError ''invalid address''),
      \<lparr>guest = guest_not_canonical, calls = [ReadRegion 1 256, CanonicalAddress [65, 66]]\<rparr>)"
  by (simp add: doAddrCanonicalize_def thenH_def read_region_def canonical_address_def
      address_simps guest_not_canonical_def)

text \<open>
  Claim C7, as amended. When recovery raises for the hash, the two halves of a 64-byte
  signature and the recovery id, \<^verbatim>\<open>secp256k1_recover_pubkey\<close> raises the same exception:
  nothing is allocated or written and no value is returned to the guest.
\<close>
theorem recover_failure_propagates:
  assumes "readRegion env (guest s) hashPtr MESSAGE_HASH_MAX_LEN = Inr hash"
    and "readRegion env (guest s) signaturePtr ECDSA_SIGNATURE_LEN = Inr sig"
    and "length sig = 64"
    and "secp_recoverPublicKey env (be_int (take 32 sig)) (be_int (drop 32 sig))
           recoverParam hash = Inl e"
  shows "doSecp256k1RecoverPubkey env hashPtr signaturePtr recoverParam s =
           (Inl e, s\<lparr>calls := calls s @
              [ReadRegion hashPtr MESSAGE_HASH_MAX_LEN,
               ReadRegion signaturePtr ECDSA_SIGNATURE_LEN,
               SecpRecover (be_int (take 32 sig)) (be_int (drop 32 sig)) recoverParam hash]\<rparr>)"
proof -
  from assms(3) have "take 32 sig \<noteq> []" and "drop 32 sig \<noteq> []"
    by auto
  moreover from assms(3) have "subarray sig 0 32 = take 32 sig" and "subarray sig 32 64 = drop 32 sig"
    by (simp_all add: subarray_def)
  ultimately show ?thesis
    using assms(1,2,4)
    by (simp add: doSecp256k1RecoverPubkey_def thenH_def read_region_def bigint_of_hex_def
        call_secp_recover_def logged_def returnH_def)
qed

text \<open>Recovery id -1 on the sample library.\<close>
theorem recover_failure_propagates_witness:
  "doSecp256k1RecoverPubkey sample_env 1 2 (- 1) (sample_state guest_recover) =
     (Inl (LibraryError ''recovery id invalid''),
      \<lparr>guest = guest_recover,
        calls = [ReadRegion 1 32, ReadRegion 2 64, SecpRecover 1 2 (- 1) sample_hash]\<rparr>)"
  using recover_failure_propagates [of sample_env "sample_state guest_recover" 1 sample_hash
      2 sample_signature "- 1" "LibraryError ''recovery id invalid''"]
  by (simp add: secp_simps guest_recover_def sample_hash_def sample_signature_def be_int_def)

text \<open>
  Claim C7 as stated fails: with recovery id 4 the library raises, and
  \<^verbatim>\<open>secp256k1_recover_pubkey\<close> ends with that exception after the two reads and the
  library call, not with a value the guest could branch on.
\<close>
theorem recover_crypto_error_counterexample:
  "doSecp256k1RecoverPubkey sample_env 1 2 4 (sample_state guest_recover) =
     (Inl (LibraryError ''recovery id invalid''),
      \<lparr>guest = guest_recover,
        calls = [ReadRegion 1 32, ReadRegion 2 64, SecpRecover 1 2 4 sample_hash]\<rparr>)"
  by (simp add: doSecp256k1RecoverPubkey_def thenH_def read_region_def bigint_of_hex_def
      call_secp_recover_def returnH_def throwH_def subarray_def be_int_def
      secp_simps guest_recover_def sample_hash_def sample_signature_def)

text \<open>
  Claim C8. Two calls of \<^verbatim>\<open>secp256k1_verify\<close> (of \<^verbatim>\<open>ed25519_verify\<close>) that read the same
  hash or message (\<open>data\<close>), signature and public key bytes, from whatever states and
  pointers, give the same outcome; and a call leaves the guest as it was and makes no write
  and no allocation. The libraries' \<^verbatim>\<open>verify\<close> functions are functions of their three
  byte arguments here.
\<close>
theorem verify_deterministic_pure:
  "(readRegion env (guest s) dataPtr MESSAGE_HASH_MAX_LEN = Inr data \<and>
    readRegion env (guest s') dataPtr' MESSAGE_HASH_MAX_LEN = Inr data \<and>
    readRegion env (guest s) signaturePtr ECDSA_SIGNATURE_LEN = Inr signature \<and>
    readRegion env (guest s') signaturePtr' ECDSA_SIGNATURE_LEN = Inr signature \<and>
    readRegion env (guest s) pubkeyPtr ECDSA_PUBKEY_MAX_LEN = Inr pubkey \<and>
    readRegion env (guest s') pubkeyPtr' ECDSA_PUBKEY_MAX_LEN = Inr pubkey \<longrightarrow>
      fst (doSecp256k1Verify env dataPtr signaturePtr pubkeyPtr s) =
      fst (doSecp256k1Verify env dataPtr' signaturePtr' pubkeyPtr' s'))
   \<and> (readRegion env (guest s) dataPtr MAX_LENGTH_ED25519_MESSAGE = Inr data \<and>
    readRegion env (guest s') dataPtr' MAX_LENGTH_ED25519_MESSAGE = Inr data \<and>
    readRegion env (guest s) signaturePtr MAX_LENGTH_ED25519_SIGNATURE = Inr signature \<and>
    readRegion env (guest s') signaturePtr' MAX_LENGTH_ED25519_SIGNATURE = Inr signature \<and>
    readRegion env (guest s) pubkeyPtr EDDSA_PUBKEY_LEN = Inr pubkey \<and>
    readRegion env (guest s') pubkeyPtr' EDDSA_PUBKEY_LEN = Inr pubkey \<longrightarrow>
      fst (doEd25519Verify env dataPtr signaturePtr pubkeyPtr s) =
      fst (doEd25519Verify env dataPtr' signaturePtr' pubkeyPtr' s'))
   \<and> guest (snd (doSecp256k1Verify env dataPtr signaturePtr pubkeyPtr s)) = guest s
   \<and> filter is_guest_effect (calls (snd (doSecp256k1Verify env dataPtr signaturePtr pubkeyPtr s)))
     = filter is_guest_effect (calls s)
   \<and> guest (snd (doEd25519Verify env dataPtr signaturePtr pubkeyPtr s)) = guest s
   \<and> filter is_guest_effect (calls (snd (doEd25519Verify env dataPtr signaturePtr pubkeyPtr s)))
     = filter is_guest_effect (calls s)"
  using doSecp256k1Verify_pure [of env dataPtr signaturePtr pubkeyPtr s]
    doEd25519Verify_pure [of env dataPtr signaturePtr pubkeyPtr s]
  by (auto simp: doSecp256k1Verify_run doEd25519Verify_run)

text \<open>The same three buffers at different pointers of two sample guests.\<close>
theorem verify_deterministic_pure_witness:
  "fst (doSecp256k1Verify sample_env 1 2 3 (sample_state guest_verify)) =
   fst (doSecp256k1Verify sample_env 9 8 7 (sample_state guest_verify_moved))
   \<and> fst (doEd25519Verify sample_env 1 2 3 (sample_state guest_verify)) =
     fst (doEd25519Verify sample_env 9 8 7 (sample_state guest_verify_moved))
   \<and> guest (snd (doSecp256k1Verify sample_env 1 2 3 (sample_state guest_verify))) = guest_verify
   \<and> guest (snd (doEd25519Verify sample_env 1 2 3 (sample_state guest_verify))) = guest_verify"
  using verify_deterministic_pure [of sample_env "sample_state guest_verify" 1 "[1, 2]"
      "sample_state guest_verify_moved" 9 2 "[1, 2, 3]" 8 3 "[3]" 7]
  by (simp add: secp_simps guest_verify_def guest_verify_moved_def)

end
